theory Spec2Isabelle
  imports Main "HOL-Library.Word" "HOL-Library.Sublist"
begin

section \<open>Go values used by mars.go\<close>

text \<open>
  Go's \<open>int\<close> is a 64-bit two's complement integer on the 64-bit platforms the tool is
  built for: \<open>+\<close> wraps around, comparisons are signed (\<open>\<le>s\<close>, that is \<open>sint a \<le> sint b\<close>).
  A Go \<open>string\<close> is a byte sequence, here a \<open>char list\<close>.
\<close>

type_synonym go_int = "64 word"

subsection \<open>The functions of package \<open>strings\<close>, \<open>strconv\<close> and \<open>fmt\<close> that the code calls\<close>

text \<open>
  \<open>strings.Replace(s, old, new, -1)\<close>: every non-overlapping occurrence of \<open>old\<close>, from the
  left, becomes \<open>new\<close>. With an empty \<open>old\<close>, \<open>new\<close> is put before every byte and at the end.
\<close>

function strings_Replace :: "string \<Rightarrow> string \<Rightarrow> string \<Rightarrow> string" where
  "strings_Replace s old new =
     (if old = [] then new @ concat (map (\<lambda>c. c # new) s)
      else if s = [] then []
      else if prefix old s then new @ strings_Replace (drop (length old) s) old new
      else hd s # strings_Replace (tl s) old new)"
  by pat_completeness auto
termination
  by (relation "measure (\<lambda>(s, old, new). length s)") auto

declare strings_Replace.simps [simp del]

text \<open>
  \<open>strings.Split(s, sep)\<close>: the pieces of \<open>s\<close> between the occurrences of \<open>sep\<close>; a string
  without \<open>sep\<close> (also the empty string) is one piece. With an empty \<open>sep\<close> the pieces
  are the single bytes. \<open>split_pieces\<close> carries the piece being read.
\<close>

function split_pieces :: "string \<Rightarrow> string \<Rightarrow> string \<Rightarrow> string list" where
  "split_pieces sep cur s =
     (if s = [] then [cur]
      else if sep \<noteq> [] \<and> prefix sep s then cur # split_pieces sep [] (drop (length sep) s)
      else split_pieces sep (cur @ [hd s]) (tl s))"
  by pat_completeness auto
termination
  by (relation "measure (\<lambda>(sep, cur, s). length s)") auto

declare split_pieces.simps [simp del]

definition strings_Split :: "string \<Rightarrow> string \<Rightarrow> string list" where
  "strings_Split s sep = (if sep = [] then map (\<lambda>c. [c]) s else split_pieces sep [] s)"

text \<open>\<open>strings.Join(elems, sep)\<close>.\<close>

fun strings_Join :: "string list \<Rightarrow> string \<Rightarrow> string" where
  "strings_Join [] sep = []"
| "strings_Join [x] sep = x"
| "strings_Join (x # y # ys) sep = x @ sep @ strings_Join (y # ys) sep"

text \<open>\<open>strconv.Itoa\<close> and the verb \<open>%d\<close> of \<open>fmt.Sprintf\<close>: the decimal digits of a signed integer.\<close>

function decimal_digits :: "nat \<Rightarrow> string" where
  "decimal_digits n =
     (if n < 10 then [''0123456789'' ! n]
      else decimal_digits (n div 10) @ [''0123456789'' ! (n mod 10)])"
  by pat_completeness auto
termination
  by (relation "measure id") auto

declare decimal_digits.simps [simp del]

definition Itoa :: "go_int \<Rightarrow> string" where
  "Itoa i = (if sint i < 0 then ''-'' @ decimal_digits (nat (- sint i)) else decimal_digits (nat (sint i)))"

subsection \<open>Time\<close>

text \<open>
  Of a \<open>time.Time\<close> the code only ever takes \<open>Format("2006-01-02")\<close>, so a time is its
  calendar date. \<open>Format_date\<close> is that layout: year, month and day, zero-padded to 4, 2 and 2
  digits.
\<close>

record go_time =
  t_year :: nat
  t_month :: nat
  t_day :: nat

definition zero_pad :: "nat \<Rightarrow> string \<Rightarrow> string" where
  "zero_pad n s = replicate (n - length s) (CHR ''0'') @ s"

definition Format_date :: "go_time \<Rightarrow> string" where
  "Format_date t =
     zero_pad 4 (decimal_digits (t_year t)) @ ''-'' @ zero_pad 2 (decimal_digits (t_month t))
       @ ''-'' @ zero_pad 2 (decimal_digits (t_day t))"

subsection \<open>Paths (packages \<open>path\<close> and \<open>path/filepath\<close>, slash-separated)\<close>

text \<open>
  \<open>Clean\<close> drops empty and \<open>.\<close> elements and resolves \<open>..\<close> against the element before it;
  \<open>clean_elements\<close> keeps the elements read so far, last first.
\<close>

fun clean_elements :: "bool \<Rightarrow> string list \<Rightarrow> string list \<Rightarrow> string list" where
  "clean_elements rooted out [] = rev out"
| "clean_elements rooted out (e # es) =
     (if e = [] \<or> e = ''.'' then clean_elements rooted out es
      else if e = ''..'' then
        (case out of
           [] \<Rightarrow> if rooted then clean_elements rooted [] es else clean_elements rooted [e] es
         | o1 # os \<Rightarrow>
             if o1 = ''..'' then clean_elements rooted (e # out) es
             else clean_elements rooted os es)
      else clean_elements rooted (e # out) es)"

definition path_Clean :: "string \<Rightarrow> string" where
  "path_Clean p =
     (if p = [] then ''.''
      else let rooted = (hd p = CHR ''/'');
               body = strings_Join (clean_elements rooted [] (strings_Split p ''/'')) ''/''
           in if rooted then ''/'' @ body else if body = [] then ''.'' else body)"

text \<open>\<open>Join\<close>: the non-empty elements, joined by a slash and cleaned; no element, no path.\<close>

definition path_Join :: "string list \<Rightarrow> string" where
  "path_Join elem =
     (let nonempty = filter (\<lambda>e. e \<noteq> []) elem
      in if nonempty = [] then [] else path_Clean (strings_Join nonempty ''/''))"

text \<open>\<open>Dir\<close>: the path up to and with its last slash, cleaned.\<close>

definition path_Dir :: "string \<Rightarrow> string" where
  "path_Dir p = path_Clean (rev (dropWhile (\<lambda>c. c \<noteq> CHR ''/'') (rev p)))"

section \<open>The data model\<close>

record Table =
  TableName :: string
  RowCount :: go_int

record Options =
  HostName :: string
  Bind :: string
  UserName :: string
  Password :: string
  Databases :: "string list"
  ExcludedDatabases :: "string list"
  DatabaseRowCountTreshold :: go_int
  TableRowCountTreshold :: go_int
  BatchSize :: go_int
  ForceSplit :: bool
  AdditionalMySQLDumpArgs :: string
  Verbosity :: go_int
  MySQLDumpPath :: string
  OutputDirectory :: string
  DefaultsProvidedByUser :: bool
  ExecutionStartDate :: go_time
  DailyRotation :: go_int
  WeeklyRotation :: go_int
  MontlyRotation :: go_int

text \<open>The values of the command-line flags after \<open>flag.Parse()\<close> in \<open>GetOptions\<close>.\<close>

record flags =
  hostname :: string
  bind :: string
  username :: string
  password :: string
  databases :: string
  excludeddatabases :: string
  dbthreshold :: go_int
  tablethreshold :: go_int
  batchsize :: go_int
  forcesplit :: bool
  additionals :: string
  verbosity :: go_int
  mysqldumppath :: string
  outputdir :: string
  dailyrotation :: go_int
  weeklyrotation :: go_int
  montlyrotation :: go_int
  test :: bool

subsection \<open>The file system\<close>

text \<open>
  The disk is a tree: a directory holds its entries by name, in the order in which the
  directory is read. A path is resolved element by element from the root of the tree (a
  relative path from the working directory, which the model puts at the root). Permissions
  are not modelled, and a symbolic link is never followed.
\<close>

datatype fnode = File string | Symlink string | Dir "(string \<times> fnode) list"

fun IsDir :: "fnode \<Rightarrow> bool" where
  "IsDir (Dir es) = True"
| "IsDir n = False"

fun IsSymlink :: "fnode \<Rightarrow> bool" where
  "IsSymlink (Symlink l) = True"
| "IsSymlink n = False"

definition path_elements :: "string \<Rightarrow> string list" where
  "path_elements p = filter (\<lambda>e. e \<noteq> [] \<and> e \<noteq> ''.'') (strings_Split p ''/'')"

fun lookup_node :: "fnode \<Rightarrow> string list \<Rightarrow> fnode option" where
  "lookup_node n [] = Some n"
| "lookup_node (Dir es) (e # p) =
     (case map_of es e of None \<Rightarrow> None | Some child \<Rightarrow> lookup_node child p)"
| "lookup_node n (e # p) = None"

text \<open>\<open>os.Stat\<close> and \<open>os.Lstat\<close>: the node at a path, \<open>None\<close> when there is none.\<close>

definition os_Stat :: "fnode \<Rightarrow> string \<Rightarrow> fnode option" where
  "os_Stat disk p = lookup_node disk (path_elements p)"

text \<open>
  \<open>place p new n\<close> puts \<open>new\<close> at the path \<open>p\<close> under \<open>n\<close>, making the missing directories
  on the way (\<open>fresh\<close>); a directory already at \<open>p\<close> stays as it is, and a path through
  something that is no directory is an error.
\<close>

fun fresh :: "string list \<Rightarrow> fnode \<Rightarrow> fnode" where
  "fresh [] new = new"
| "fresh (e # p) new = Dir [(e, fresh p new)]"

fun place :: "string list \<Rightarrow> fnode \<Rightarrow> fnode \<Rightarrow> fnode option" where
  "place [] new n = (if IsDir n then Some n else None)"
| "place (e # p) new (Dir es) =
     (case map_of es e of
        None \<Rightarrow> Some (Dir (es @ [(e, fresh p new)]))
      | Some child \<Rightarrow>
          (case place p new child of
             None \<Rightarrow> None
           | Some child' \<Rightarrow> Some (Dir (map (\<lambda>(k, v). if k = e then (k, child') else (k, v)) es))))"
| "place (e # p) new n = None"

text \<open>\<open>os.MkdirAll\<close>; the callers drop its error, so on error the disk is as before.\<close>

definition os_MkdirAll :: "string \<Rightarrow> fnode \<Rightarrow> fnode" where
  "os_MkdirAll p disk = (case place (path_elements p) (Dir []) disk of None \<Rightarrow> disk | Some d \<Rightarrow> d)"

text \<open>
  \<open>os.Mkdir\<close> makes the last directory only: it fails when the parent is missing or the
  path exists. The callers drop its error too.
\<close>

definition os_Mkdir :: "string \<Rightarrow> fnode \<Rightarrow> fnode" where
  "os_Mkdir p disk =
     (let es = path_elements p
      in if es = [] then disk
         else case (lookup_node disk (butlast es), lookup_node disk es) of
                (Some (Dir _), None) \<Rightarrow> os_MkdirAll p disk
              | _ \<Rightarrow> disk)"

text \<open>
  \<open>filepath.Walk(root, fn)\<close> calls \<open>fn\<close> on the root and then on everything below it, a
  directory before its entries. \<open>walk\<close> lists the paths \<open>fn\<close> is called with. When the root does
  not exist, \<open>fn\<close> is called once all the same, with the root and the error of \<open>Lstat\<close>.
\<close>

fun walk :: "string \<Rightarrow> fnode \<Rightarrow> string list" where
  "walk p (Dir es) = p # concat (map (\<lambda>e. walk (path_Join [p, fst e]) (snd e)) es)"
| "walk p n = [p]"

definition filepath_Walk :: "fnode \<Rightarrow> string \<Rightarrow> string list" where
  "filepath_Walk disk root = (case os_Stat disk root of None \<Rightarrow> [root] | Some n \<Rightarrow> walk root n)"

subsection \<open>What lies outside the program\<close>

text \<open>
  One invocation of the dump executable: the number of the clock reading made for it, the
  executable, its arguments and the file it writes (\<open>-r\<close>).
\<close>

record dump_call =
  at_tick :: nat
  exe :: string
  args :: "string list"
  outfile :: string

text \<open>
  The world answers for the clock, the database server, the dump executable and the
  archiving: \<open>time_Now n\<close> is the \<open>n\<close>-th reading of \<open>time.Now()\<close> in the run;
  \<open>GetDatabaseList\<close> and \<open>GetTables\<close> are the results of the two queries;
  \<open>mysqldump_stderr\<close> is what the command writes to standard error; \<open>Create_fails\<close> and
  \<open>Compress_fails\<close> say whether \<open>os.Create\<close> of the archive and \<open>Compress\<close> return an
  error; \<open>on_disk\<close> is what the command and the archiving of its output change on the disk.
  A failing query panics in \<open>checkErr\<close>; panics are not modelled.
\<close>

record world =
  time_Now :: "nat \<Rightarrow> go_time"
  Getwd :: string
  GetDatabaseList :: "string list"
  GetTables :: "string \<Rightarrow> Table list"
  mysqldump_stderr :: "dump_call \<Rightarrow> string"
  Create_fails :: "dump_call \<Rightarrow> bool"
  Compress_fails :: "dump_call \<Rightarrow> bool"
  on_disk :: "dump_call \<Rightarrow> fnode \<Rightarrow> fnode"

text \<open>
  The state of a run: how often the clock has been read, the dump invocations made so
  far, oldest first, and the disk.
\<close>

record pstate =
  ticks :: nat
  trace :: "dump_call list"
  disk :: fnode

text \<open>A function either returns or ends the process through \<open>os.Exit(code)\<close>.\<close>

datatype outcome = Returned | Exited nat

section \<open>Resolving the list of databases (\<open>NewOptions\<close>)\<close>

text \<open>
  \<open>removeDuplicates\<close>: the loop over \<open>elements\<close> with the map \<open>encountered\<close> (a missing
  key reads as \<open>false\<close>) and the slice \<open>result\<close> it appends to.
\<close>

fun removeDuplicates_loop :: "(string \<Rightarrow> bool) \<Rightarrow> string list \<Rightarrow> string list \<Rightarrow> string list" where
  "removeDuplicates_loop encountered result [] = result"
| "removeDuplicates_loop encountered result (e # elements) =
     (if encountered e = True then removeDuplicates_loop encountered result elements
      else removeDuplicates_loop (encountered(e := True)) (result @ [e]) elements)"

definition removeDuplicates :: "string list \<Rightarrow> string list" where
  "removeDuplicates elements = removeDuplicates_loop (\<lambda>_. False) [] elements"

text \<open>
  \<open>difference(a, b)\<close>: the first loop fills the map \<open>mb\<close> with the elements of \<open>b\<close>, the
  second keeps the elements of \<open>a\<close> that are no key of \<open>mb\<close>.
\<close>

fun difference_mb :: "(string \<rightharpoonup> bool) \<Rightarrow> string list \<Rightarrow> (string \<rightharpoonup> bool)" where
  "difference_mb mb [] = mb"
| "difference_mb mb (x # b) = difference_mb (mb(x \<mapsto> True)) b"

fun difference_ab :: "(string \<rightharpoonup> bool) \<Rightarrow> string list \<Rightarrow> string list \<Rightarrow> string list" where
  "difference_ab mb ab [] = ab"
| "difference_ab mb ab (x # a) =
     (case mb x of None \<Rightarrow> difference_ab mb (ab @ [x]) a
      | Some _ \<Rightarrow> difference_ab mb ab a)"

definition difference :: "string list \<Rightarrow> string list \<Rightarrow> string list" where
  "difference a b = difference_ab (difference_mb Map.empty b) [] a"

text \<open>
  The four \<open>strings.Replace\<close> calls that \<open>NewOptions\<close> applies to both comma-separated lists.
\<close>

definition strip_list :: "string \<Rightarrow> string" where
  "strip_list l =
     strings_Replace (strings_Replace (strings_Replace (strings_Replace l '' '' []) '' , '' '','')
       '', '' '','') '' ,'' '',''"

text \<open>
  \<open>NewOptions\<close> with the flags of \<open>GetOptions\<close> as its arguments; \<open>now\<close> is the reading of
  \<open>time.Now()\<close> for \<open>ExecutionStartDate\<close>. The excluded databases are split into a variable
  local to the branch, so the field \<open>ExcludedDatabases\<close> stays the empty list of the outer one.
\<close>

definition NewOptions :: "world \<Rightarrow> go_time \<Rightarrow> flags \<Rightarrow> string \<Rightarrow> Options" where
  "NewOptions w now fl outputDirectory =
     (let dblist = strip_list (databases fl);
          dbs = removeDuplicates (strings_Split dblist '','');
          dbs = (if dblist = ''--all-databases'' then
                   (let excl = excludeddatabases fl @ '',information_schema,performance_schema'';
                        dbslist = GetDatabaseList w;
                        excludeddbs = removeDuplicates (strings_Split (strip_list excl) '','')
                    in difference dbslist excludeddbs)
                 else dbs)
      in \<lparr> HostName = hostname fl, Bind = bind fl, UserName = username fl,
           Password = password fl, Databases = dbs, ExcludedDatabases = [],
           DatabaseRowCountTreshold = dbthreshold fl, TableRowCountTreshold = tablethreshold fl,
           BatchSize = batchsize fl, ForceSplit = forcesplit fl,
           AdditionalMySQLDumpArgs = additionals fl, Verbosity = verbosity fl,
           MySQLDumpPath = mysqldumppath fl, OutputDirectory = outputDirectory,
           DefaultsProvidedByUser = True, ExecutionStartDate = now,
           DailyRotation = dailyrotation fl, WeeklyRotation = weeklyrotation fl,
           MontlyRotation = montlyrotation fl \<rparr>)"

section \<open>The dumps\<close>

text \<open>\<open>getTotalRowCount\<close>: the sum of the row counts, in Go's \<open>int\<close>.\<close>

fun getTotalRowCount_loop :: "go_int \<Rightarrow> Table list \<Rightarrow> go_int" where
  "getTotalRowCount_loop result [] = result"
| "getTotalRowCount_loop result (table # tables) =
     getTotalRowCount_loop (result + RowCount table) tables"

definition getTotalRowCount :: "Table list \<Rightarrow> go_int" where
  "getTotalRowCount tables = getTotalRowCount_loop 0 tables"

text \<open>
  The three branches of the \<open>if\<close> / \<open>else if\<close> chain in \<open>main\<close>, in its order; \<open>None\<close>
  stands for the chain falling through, where \<open>main\<close> dumps nothing for the database.
\<close>

datatype SizingDecision = SingleFile | SplitSchemaData | PerTableBatched

definition sizing_decision :: "bool \<Rightarrow> go_int \<Rightarrow> go_int \<Rightarrow> SizingDecision option" where
  "sizing_decision forceSplit totalRowCount threshold =
     (if \<not> forceSplit \<and> totalRowCount \<le>s threshold then Some SingleFile
      else if forceSplit \<and> totalRowCount \<le>s threshold then Some SplitSchemaData
      else if threshold <s totalRowCount then Some PerTableBatched
      else None)"

text \<open>The pieces the four \<open>generate\<close> functions build in the same way.\<close>

definition connection_args :: "Options \<Rightarrow> string list" where
  "connection_args options =
     [''-h'' @ HostName options, ''-u'' @ UserName options, ''-p'' @ Password options]"

definition additional_args :: "Options \<Rightarrow> string list" where
  "additional_args options =
     (if AdditionalMySQLDumpArgs options \<noteq> [] then strings_Split (AdditionalMySQLDumpArgs options) '' ''
      else [])"

definition timestamp :: "Options \<Rightarrow> string" where
  "timestamp options =
     strings_Replace (strings_Replace (Format_date (ExecutionStartDate options)) ''-'' []) '':'' []"

text \<open>
  The directory of a dump file: \<open>t\<close> is the reading of \<open>time.Now()\<close> that each \<open>generate\<close>
  function makes for itself.
\<close>

definition dump_filename :: "Options \<Rightarrow> go_time \<Rightarrow> string \<Rightarrow> string \<Rightarrow> string" where
  "dump_filename options t db name =
     path_Join [OutputDirectory options, ''daily'', Format_date t,
                db @ ''-'' @ Format_date (ExecutionStartDate options), name]"

text \<open>
  From \<open>exec.Command\<close> to the end of the compression, the same in the four functions: the
  command runs; text on its standard error, an error of \<open>os.Create\<close> or an error of
  \<open>Compress\<close> each end the process with \<open>os.Exit(4)\<close>.
\<close>

definition run_mysqldump :: "world \<Rightarrow> dump_call \<Rightarrow> pstate \<Rightarrow> outcome \<times> pstate" where
  "run_mysqldump w c s =
     (let s' = s\<lparr> trace := trace s @ [c], disk := on_disk w c (disk s) \<rparr>
      in if mysqldump_stderr w c \<noteq> [] then (Exited 4, s')
         else if Create_fails w c then (Exited 4, s')
         else if Compress_fails w c then (Exited 4, s')
         else (Returned, s'))"


text \<open>
  \<open>generate_call\<close> is the invocation that \<open>generateSingleFileBackup\<close>, \<open>generateSchemaBackup\<close>
  and \<open>generateSingleFileDataBackup\<close> build, each with its own flags and file name, at the
  clock reading \<open>n\<close>; \<open>generate\<close> makes the directory of the file (\<open>os.Mkdir\<close>) and runs it.
\<close>

definition generate_call :: "world \<Rightarrow> Options \<Rightarrow> string list \<Rightarrow> string \<Rightarrow> string \<Rightarrow> nat \<Rightarrow> dump_call" where
  "generate_call w options dump_flags db name n =
     (let t = time_Now w n;
          filename = dump_filename options t db name
      in \<lparr> at_tick = n, exe = MySQLDumpPath options,
           args = connection_args options @ dump_flags @ additional_args options
                    @ [''-r'' @ filename] @ [db],
           outfile = filename \<rparr>)"

definition generate :: "world \<Rightarrow> Options \<Rightarrow> string list \<Rightarrow> string \<Rightarrow> string
    \<Rightarrow> pstate \<Rightarrow> outcome \<times> pstate" where
  "generate w options dump_flags db name s =
     (let c = generate_call w options dump_flags db name (ticks s)
      in run_mysqldump w c
           (s\<lparr> ticks := ticks s + 1, disk := os_Mkdir (path_Dir (outfile c)) (disk s) \<rparr>))"

definition generateSingleFileBackup :: "world \<Rightarrow> Options \<Rightarrow> string \<Rightarrow> pstate \<Rightarrow> outcome \<times> pstate" where
  "generateSingleFileBackup w options db s =
     generate w options [] db (db @ ''_'' @ ''ALL'' @ ''_'' @ timestamp options @ ''.sql'') s"

definition generateSchemaBackup :: "world \<Rightarrow> Options \<Rightarrow> string \<Rightarrow> pstate \<Rightarrow> outcome \<times> pstate" where
  "generateSchemaBackup w options db s =
     generate w options [''--no-data''] db
       (db @ ''_'' @ ''SCHEMA'' @ ''_'' @ timestamp options @ ''.sql'') s"

definition generateSingleFileDataBackup :: "world \<Rightarrow> Options \<Rightarrow> string \<Rightarrow> pstate \<Rightarrow> outcome \<times> pstate" where
  "generateSingleFileDataBackup w options db s =
     generate w options [''--no-create-db'', ''--skip-triggers'', ''--no-create-info''] db
       (db @ ''_'' @ ''DATA'' @ ''_'' @ timestamp options @ ''.sql'') s"

text \<open>
  One round of the loop of \<open>generateTableBackup\<close>: the dump of the rows
  \<open>LIMIT counter, BatchSize\<close> of the table into the file numbered \<open>index\<close>.
\<close>

definition table_batch_call :: "world \<Rightarrow> Options \<Rightarrow> string \<Rightarrow> Table \<Rightarrow> go_int \<Rightarrow> go_int \<Rightarrow> nat
    \<Rightarrow> dump_call" where
  "table_batch_call w options db table index counter n =
     (let t = time_Now w n;
          filename = dump_filename options t db
                       (db @ ''_'' @ TableName table @ Itoa index @ ''_'' @ timestamp options @ ''.sql'')
      in \<lparr> at_tick = n, exe = MySQLDumpPath options,
           args = connection_args options
                    @ [''--no-create-db'', ''--skip-triggers'', ''--no-create-info'']
                    @ additional_args options
                    @ [''-r'' @ filename,
                       ''--where=1=1 LIMIT '' @ Itoa counter @ '', '' @ Itoa (BatchSize options),
                       db, TableName table],
           outfile = filename \<rparr>)"

definition table_batch :: "world \<Rightarrow> Options \<Rightarrow> string \<Rightarrow> Table \<Rightarrow> go_int \<Rightarrow> go_int \<Rightarrow> pstate
    \<Rightarrow> outcome \<times> pstate" where
  "table_batch w options db table index counter s =
     (let c = table_batch_call w options db table index counter (ticks s)
      in run_mysqldump w c
           (s\<lparr> ticks := ticks s + 1, disk := os_Mkdir (path_Dir (outfile c)) (disk s) \<rparr>))"

text \<open>
  The loop \<open>for counter := 0; counter <= table.RowCount; counter += options.BatchSize\<close>.
  It need not end, so its result is optional: \<open>None\<close> is the loop that runs for ever.
\<close>

partial_function (option) generateTableBackup_loop ::
    "world \<Rightarrow> Options \<Rightarrow> string \<Rightarrow> Table \<Rightarrow> go_int \<Rightarrow> go_int \<Rightarrow> pstate \<Rightarrow> (outcome \<times> pstate) option" where
  "generateTableBackup_loop w options db table index counter s =
     (if counter \<le>s RowCount table then
        (let r = table_batch w options db table index counter s
         in if fst r = Returned
            then generateTableBackup_loop w options db table (index + 1)
                   (counter + BatchSize options) (snd r)
            else Some r)
      else Some (Returned, s))"

definition generateTableBackup :: "world \<Rightarrow> Options \<Rightarrow> string \<Rightarrow> Table \<Rightarrow> pstate
    \<Rightarrow> (outcome \<times> pstate) option" where
  "generateTableBackup w options db table s = generateTableBackup_loop w options db table 1 0 s"

section \<open>\<open>main\<close>\<close>

text \<open>\<open>for _, table := range tables\<close>; an exit in a table ends the loop with it.\<close>

fun tables_loop :: "world \<Rightarrow> Options \<Rightarrow> string \<Rightarrow> Table list \<Rightarrow> pstate \<Rightarrow> (outcome \<times> pstate) option" where
  "tables_loop w options db [] s = Some (Returned, s)"
| "tables_loop w options db (table # tables) s =
     (case generateTableBackup w options db table s of
        None \<Rightarrow> None
      | Some (Exited code, s') \<Rightarrow> Some (Exited code, s')
      | Some (Returned, s') \<Rightarrow> tables_loop w options db tables s')"

text \<open>The body of the loop over the databases in \<open>main\<close>.\<close>

definition process_database :: "world \<Rightarrow> Options \<Rightarrow> string \<Rightarrow> pstate \<Rightarrow> (outcome \<times> pstate) option" where
  "process_database w options db s =
     (let tables = GetTables w db;
          totalRowCount = getTotalRowCount tables
      in case sizing_decision (ForceSplit options) totalRowCount (DatabaseRowCountTreshold options) of
           Some SingleFile \<Rightarrow> Some (generateSingleFileBackup w options db s)
         | Some SplitSchemaData \<Rightarrow>
             (case generateSchemaBackup w options db s of
                (Exited code, s') \<Rightarrow> Some (Exited code, s')
              | (Returned, s') \<Rightarrow> Some (generateSingleFileDataBackup w options db s'))
         | Some PerTableBatched \<Rightarrow>
             (case generateSchemaBackup w options db s of
                (Exited code, s') \<Rightarrow> Some (Exited code, s')
              | (Returned, s') \<Rightarrow> tables_loop w options db tables s')
         | None \<Rightarrow> Some (Returned, s))"


section \<open>The rotation\<close>

text \<open>
  \<open>ListFiles\<close>: the callback given to \<open>filepath.Walk\<close> appends every path that is none of
  the three strings and always returns \<open>nil\<close>, so the walk is never cut short.
\<close>

definition ListFiles :: "fnode \<Rightarrow> string \<Rightarrow> string list" where
  "ListFiles d searchDir =
     filter (\<lambda>path. path \<noteq> ''daily'' \<and> path \<noteq> ''weekly'' \<and> path \<noteq> ''monthly'')
       (filepath_Walk d searchDir)"

text \<open>
  What \<open>CopyDir\<close> and \<open>CopyFile\<close> make of a source tree at the destination: directories and
  files, symbolic links left out.
\<close>

fun copy_tree :: "fnode \<Rightarrow> fnode" where
  "copy_tree (Dir es) =
     Dir (map (\<lambda>e. (fst e, copy_tree (snd e))) (filter (\<lambda>e. \<not> IsSymlink (snd e)) es))"
| "copy_tree n = n"

text \<open>
  \<open>CopyDir\<close>: the source must be a directory and the destination must not exist; then the
  destination is made with \<open>os.MkdirAll\<close> and the entries are copied into it, directories by
  the recursive call. The recursion of the source is the recursion over the tree in
  \<open>copy_tree\<close>; a destination inside its own source is not modelled.
\<close>

definition CopyDir :: "string \<Rightarrow> string \<Rightarrow> fnode \<Rightarrow> (string + unit) \<times> fnode" where
  "CopyDir src dst d =
     (let src = path_Clean src; dst = path_Clean dst
      in case os_Stat d src of
           None \<Rightarrow> (Inl ''no such file or directory'', d)
         | Some si \<Rightarrow>
             if \<not> IsDir si then (Inl ''source is not a directory'', d)
             else case os_Stat d dst of
                    Some di \<Rightarrow> (Inl ''destination already exists'', d)
                  | None \<Rightarrow>
                      (case place (path_elements dst) (copy_tree si) d of
                         None \<Rightarrow> (Inl ''not a directory'', d)
                       | Some d' \<Rightarrow> (Inr (), d')))"

text \<open>
  \<open>BackupRotation\<close>. The error of \<open>CopyDir\<close> is dropped. The branches for the weekly and
  the daily tier list the tier and then do nothing.
\<close>

definition BackupRotation :: "world \<Rightarrow> Options \<Rightarrow> pstate \<Rightarrow> pstate" where
  "BackupRotation w options s =
     (let t = time_Now w (ticks s);
          s = s\<lparr> ticks := ticks s + 1 \<rparr>;
          s = (if 0 <s MontlyRotation options then
                 (let month = ListFiles (disk s) (OutputDirectory options @ ''/monthly'')
                  in if length month = 0 then
                       s\<lparr> disk := snd (CopyDir (OutputDirectory options @ ''/daily/'' @ Format_date t)
                                         (OutputDirectory options @ ''/monthly/'' @ Format_date t)
                                         (disk s)) \<rparr>
                     else s)
               else s);
          s = (if 0 <s WeeklyRotation options then
                 (let month = ListFiles (disk s) (OutputDirectory options @ ''/weekly'')
                  in if length month = 0 then s else s)
               else s);
          s = (if 0 <s DailyRotation options then
                 (let month = ListFiles (disk s) (OutputDirectory options @ ''/daily'')
                  in if length month = 0 then s else s)
               else s)
      in s)"

section \<open>The start of a run\<close>



section \<open>Example inputs\<close>

text \<open>
  A server with five schemas, each with the tables \<open>orders\<close> (50 rows) and \<open>customers\<close>
  (10 rows), on which every dump and every archive succeeds, and the default flags with
  the exclusion list \<open>test\<close>.
\<close>

definition example_day :: go_time where
  "example_day = \<lparr> t_year = 2026, t_month = 11, t_day = 3 \<rparr>"

definition example_world :: world where
  "example_world =
     \<lparr> time_Now = (\<lambda>n. example_day),
       Getwd = ''/root'',
       GetDatabaseList = [''information_schema'', ''mysql'', ''performance_schema'', ''test'', ''app''],
       GetTables = (\<lambda>db. [\<lparr> TableName = ''orders'', RowCount = 50 \<rparr>,
                            \<lparr> TableName = ''customers'', RowCount = 10 \<rparr>]),
       mysqldump_stderr = (\<lambda>c. []),
       Create_fails = (\<lambda>c. False),
       Compress_fails = (\<lambda>c. False),
       on_disk = (\<lambda>c d. d) \<rparr>"

definition example_flags :: flags where
  "example_flags =
     \<lparr> hostname = ''localhost'', bind = ''3306'', username = ''root'', password = ''1234'',
       databases = ''--all-databases'', excludeddatabases = ''test'',
       dbthreshold = 10000000, tablethreshold = 5000000, batchsize = 1000000,
       forcesplit = False, additionals = [], verbosity = 2,
       mysqldumppath = ''/usr/bin/mysqldump'', outputdir = ''/backup'',
       dailyrotation = 5, weeklyrotation = 2, montlyrotation = 1, test = False \<rparr>"

definition example_options :: Options where
  "example_options = NewOptions example_world example_day example_flags ''/backup''"

text \<open>
  The disk after the start of the run on that day: the dump executable and the three tier
  directories, empty but for the directory of the day.
\<close>

definition example_disk :: fnode where
  "example_disk =
     Dir [(''usr'', Dir [(''bin'', Dir [(''mysqldump'', File ''ELF'')])]),
          (''backup'', Dir [(''daily'', Dir [(''2026-11-03'', Dir [])]),
                            (''weekly'', Dir []),
                            (''monthly'', Dir [])])]"

definition example_state :: pstate where
  "example_state = \<lparr> ticks = 2, trace = [], disk = example_disk \<rparr>"

text \<open>The three tier directories, empty, in the working directory.\<close>

definition working_directory :: fnode where
  "working_directory = Dir [(''daily'', Dir []), (''weekly'', Dir []), (''monthly'', Dir [])]"

text \<open>The snapshots of a tier: the names of the entries of the tier directory.\<close>

definition tier_snapshots :: "fnode \<Rightarrow> string \<Rightarrow> string list" where
  "tier_snapshots d tier = (case os_Stat d tier of Some (Dir es) \<Rightarrow> map fst es | _ \<Rightarrow> [])"

text \<open>
  The disk after the dumps of two days, with the retention of the day before still to be
  applied: two snapshots in the daily tier, none in the weekly and monthly tiers.
\<close>

definition dumped_disk :: fnode where
  "dumped_disk =
     Dir [(''usr'', Dir [(''bin'', Dir [(''mysqldump'', File ''ELF'')])]),
          (''backup'',
             Dir [(''daily'',
                     Dir [(''2026-11-02'', Dir [(''app-2026-11-02'', Dir [(''app_ALL_20261102.sql.tar.gz'', File ''tgz'')])]),
                          (''2026-11-03'', Dir [(''app-2026-11-03'', Dir [(''app_ALL_20261103.sql.tar.gz'', File ''tgz'')])])]),
                  (''weekly'', Dir []),
                  (''monthly'', Dir [])])]"

definition dumped_state :: pstate where
  "dumped_state = \<lparr> ticks = 3, trace = [], disk = dumped_disk \<rparr>"















section \<open>Statements about runs\<close>



section \<open>Properties of the list functions\<close>

lemma removeDuplicates_loop_eq:
  "removeDuplicates_loop enc res xs =
     res @ map (\<lambda>i. xs ! i)
             (filter (\<lambda>i. \<not> enc (xs ! i) \<and> xs ! i \<notin> set (take i xs)) [0..<length xs])"
proof (induction xs arbitrary: enc res)
  case Nil
  then show ?case by simp
next
  case (Cons x xs)
  have upt: "[0..<length (x # xs)] = 0 # map Suc [0..<length xs]"
    by (simp add: upt_conv_Cons map_Suc_upt del: upt_Suc)
  show ?case
  proof (cases "enc x")
    case True
    have P: "(\<lambda>i. \<not> enc (xs ! i) \<and> xs ! i \<noteq> x \<and> xs ! i \<notin> set (take i xs)) =
             (\<lambda>i. \<not> enc (xs ! i) \<and> xs ! i \<notin> set (take i xs))"
      using True by auto
    show ?thesis
      using True by (simp only: upt) (simp add: Cons.IH filter_map comp_def P)
  next
    case False
    have F: "filter (\<lambda>i. \<not> (enc(x := True)) (xs ! i) \<and> xs ! i \<notin> set (take i xs)) [0..<length xs] =
             filter (\<lambda>i. \<not> enc (xs ! i) \<and> xs ! i \<noteq> x \<and> xs ! i \<notin> set (take i xs)) [0..<length xs]"
      by (rule filter_cong) auto
    note IH = Cons.IH [of "enc(x := True)" "res @ [x]", unfolded F]
    show ?thesis
      using False by (simp only: upt) (simp add: IH filter_map comp_def)
  qed
qed

lemma set_removeDuplicates_loop:
  "set (removeDuplicates_loop enc res xs) = set res \<union> {x \<in> set xs. \<not> enc x}"
  by (induction xs arbitrary: enc res) auto

lemma distinct_removeDuplicates_loop:
  "distinct res \<Longrightarrow> (\<forall>x \<in> set res. enc x) \<Longrightarrow> distinct (removeDuplicates_loop enc res xs)"
proof (induction xs arbitrary: enc res)
  case Nil
  then show ?case by simp
next
  case (Cons a xs)
  show ?case
  proof (cases "enc a")
    case True
    then show ?thesis using Cons by simp
  next
    case False
    have "distinct (res @ [a])" using Cons.prems False by auto
    moreover have "\<forall>x \<in> set (res @ [a]). (enc(a := True)) x" using Cons.prems by auto
    ultimately show ?thesis using False Cons.IH by simp
  qed
qed

lemma set_removeDuplicates: "set (removeDuplicates xs) = set xs"
  by (simp add: removeDuplicates_def set_removeDuplicates_loop)

lemma difference_mb_dom: "dom (difference_mb mb b) = dom mb \<union> set b"
  by (induction b arbitrary: mb) auto

lemma difference_ab_eq: "difference_ab mb ab a = ab @ filter (\<lambda>x. x \<notin> dom mb) a"
  by (induction a arbitrary: ab) (auto split: option.splits)

lemma difference_eq: "difference a b = filter (\<lambda>x. x \<notin> set b) a"
  by (simp add: difference_def difference_ab_eq difference_mb_dom)

text \<open>
  C6. \<open>removeDuplicates\<close> keeps the element at position \<open>i\<close> exactly when it does not occur
  before position \<open>i\<close>, in the order of the positions: the first occurrence of every name,
  in first-seen order. Its result has no duplicates and the same names as its argument, and
  the list a, b, a becomes a, b.
\<close>

theorem removeDuplicates_first_occurrences:
  "removeDuplicates xs =
     map (\<lambda>i. xs ! i) (filter (\<lambda>i. xs ! i \<notin> set (take i xs)) [0..<length xs])
   \<and> distinct (removeDuplicates xs)
   \<and> set (removeDuplicates xs) = set xs
   \<and> removeDuplicates [''a'', ''b'', ''a''] = [''a'', ''b'']"
proof -
  have "removeDuplicates xs =
          map (\<lambda>i. xs ! i) (filter (\<lambda>i. xs ! i \<notin> set (take i xs)) [0..<length xs])"
    by (simp add: removeDuplicates_def removeDuplicates_loop_eq)
  moreover have "distinct (removeDuplicates xs)"
    by (simp add: removeDuplicates_def distinct_removeDuplicates_loop)
  moreover have "removeDuplicates [''a'', ''b'', ''a''] = [''a'', ''b'']"
    by (simp add: removeDuplicates_def)
  moreover have "set (removeDuplicates xs) = set xs"
    by (rule set_removeDuplicates)
  ultimately show ?thesis
    by blast
qed

section \<open>The databases of a run\<close>

lemma strings_Replace_space: "strings_Replace s '' '' [] = filter (\<lambda>c. c \<noteq> CHR '' '') s"
  by (induction s) (auto simp: strings_Replace.simps[of "_ # _"] strings_Replace.simps[of "[]"])

lemma strings_Replace_absent:
  "old \<noteq> [] \<Longrightarrow> \<not> set old \<subseteq> set s \<Longrightarrow> strings_Replace s old new = s"
proof (induction s)
  case Nil
  then show ?case by (simp add: strings_Replace.simps)
next
  case (Cons a s)
  have "\<not> prefix old (a # s)" using Cons.prems(2) by (meson set_mono_prefix)
  moreover have "\<not> set old \<subseteq> set s" using Cons.prems(2) by auto
  ultimately show ?case using Cons by (simp add: strings_Replace.simps[of "a # s"])
qed

lemma strip_list_eq: "strip_list l = filter (\<lambda>c. c \<noteq> CHR '' '') l"
  by (simp add: strip_list_def strings_Replace_space strings_Replace_absent)

lemma split_pieces_Nil: "split_pieces sep cur [] = [cur]"
  by (simp add: split_pieces.simps)

lemma split_pieces_Cons1:
  "split_pieces [c] cur (x # s) =
     (if x = c then cur # split_pieces [c] [] s else split_pieces [c] (cur @ [x]) s)"
  by (subst split_pieces.simps) simp

lemma split_pieces_append:
  "split_pieces [c] cur (a @ c # b) = split_pieces [c] cur a @ split_pieces [c] [] b"
  by (induction a arbitrary: cur) (simp_all add: split_pieces_Nil split_pieces_Cons1)

lemma strings_Split_comma_append:
  "strings_Split (a @ '','' @ b) '','' = strings_Split a '','' @ strings_Split b '',''"
  using split_pieces_append [of "CHR '',''" "[]" a b] by (simp add: strings_Split_def)

lemma system_schemas_split:
  "strings_Split ''information_schema,performance_schema'' '','' =
     [''information_schema'', ''performance_schema'']"
  by (simp add: strings_Split_def split_pieces_Nil split_pieces_Cons1)

lemma excluded_split:
  "set (strings_Split (strip_list (excl @ '',information_schema,performance_schema'')) '','') =
     set (strings_Split (strip_list excl) '','') \<union> {''information_schema'', ''performance_schema''}"
proof -
  have "strip_list (excl @ '',information_schema,performance_schema'') =
          strip_list excl @ '','' @ ''information_schema,performance_schema''"
    by (simp add: strip_list_eq)
  then show ?thesis
    by (simp only: strings_Split_comma_append system_schemas_split) auto
qed

text \<open>
  C5. In all-databases mode (the database list, spaces removed, is \<open>--all-databases\<close>) the
  databases of the run are the server's databases, in the server's order, without the names
  of the user's exclusion list (the comma-separated list, spaces removed) and without
  \<open>information_schema\<close> and \<open>performance_schema\<close>, whatever the exclusion list is.
\<close>

theorem all_databases_resolution:
  assumes "strip_list (databases fl) = ''--all-databases''"
  shows "Databases (NewOptions w now fl out) =
           filter (\<lambda>db. db \<notin> set (strings_Split (strip_list (excludeddatabases fl)) '','')
                        \<and> db \<noteq> ''information_schema'' \<and> db \<noteq> ''performance_schema'')
             (GetDatabaseList w)
       \<and> set (Databases (NewOptions w now fl out)) =
           set (GetDatabaseList w) - set (strings_Split (strip_list (excludeddatabases fl)) '','')
             - {''information_schema'', ''performance_schema''}"
proof -
  have "Databases (NewOptions w now fl out) =
          filter (\<lambda>db. db \<notin> set (strings_Split
                    (strip_list (excludeddatabases fl @ '',information_schema,performance_schema'')) '',''))
            (GetDatabaseList w)"
    using assms by (simp add: NewOptions_def Let_def difference_eq set_removeDuplicates)
  also have "\<dots> = filter (\<lambda>db. db \<notin> set (strings_Split (strip_list (excludeddatabases fl)) '','')
                        \<and> db \<noteq> ''information_schema'' \<and> db \<noteq> ''performance_schema'')
             (GetDatabaseList w)"
    by (rule filter_cong) (auto simp: excluded_split)
  finally show ?thesis by auto
qed

theorem all_databases_resolution_witness:
  "strip_list (databases example_flags) = ''--all-databases''
   \<and> strings_Split (strip_list (excludeddatabases example_flags)) '','' = [''test'']
   \<and> Databases (NewOptions example_world example_day example_flags ''/backup'') = [''mysql'', ''app'']"
proof -
  have a: "strip_list (databases example_flags) = ''--all-databases''"
    by (simp add: example_flags_def strip_list_eq)
  have b: "strings_Split (strip_list (excludeddatabases example_flags)) '','' = [''test'']"
    by (simp add: example_flags_def strip_list_eq strings_Split_def split_pieces_Nil split_pieces_Cons1)
  show ?thesis
    using all_databases_resolution [OF a, of example_world example_day "''/backup''"] a b
    by (simp add: example_world_def)
qed


section \<open>The sizing decision\<close>

text \<open>
  C1. For every force-split flag, total row count and threshold the chain in \<open>main\<close> takes
  exactly one of its three branches: without the flag and at or below the threshold one
  file with schema and data; with the flag and at or below the threshold the schema dump
  and then the data dump; above the threshold, whatever the flag, the schema dump and then
  the batched dumps of every table. The three conditions cover every input and no two of
  them hold together, so the chain never falls through.
\<close>

theorem sizing_decision_table:
  fixes forceSplit :: bool and totalRowCount dbThreshold :: go_int
  defines "single \<equiv> \<not> forceSplit \<and> totalRowCount \<le>s dbThreshold"
    and "split \<equiv> forceSplit \<and> totalRowCount \<le>s dbThreshold"
    and "batched \<equiv> dbThreshold <s totalRowCount"
  shows "(single \<longrightarrow> sizing_decision forceSplit totalRowCount dbThreshold = Some SingleFile)
       \<and> (split \<longrightarrow> sizing_decision forceSplit totalRowCount dbThreshold = Some SplitSchemaData)
       \<and> (batched \<longrightarrow> sizing_decision forceSplit totalRowCount dbThreshold = Some PerTableBatched)
       \<and> (single \<or> split \<or> batched)
       \<and> \<not> (single \<and> split) \<and> \<not> (single \<and> batched) \<and> \<not> (split \<and> batched)
       \<and> (ForceSplit options = forceSplit \<and> getTotalRowCount (GetTables w db) = totalRowCount
            \<and> DatabaseRowCountTreshold options = dbThreshold \<longrightarrow>
          process_database w options db s =
            (if single then Some (generateSingleFileBackup w options db s)
             else if split then
               (case generateSchemaBackup w options db s of
                  (Exited code, s') \<Rightarrow> Some (Exited code, s')
                | (Returned, s') \<Rightarrow> Some (generateSingleFileDataBackup w options db s'))
             else
               (case generateSchemaBackup w options db s of
                  (Exited code, s') \<Rightarrow> Some (Exited code, s')
                | (Returned, s') \<Rightarrow> tables_loop w options db (GetTables w db) s')))"
  unfolding single_def split_def batched_def sizing_decision_def process_database_def
  by (auto simp: word_sle_eq word_sless_alt Let_def sizing_decision_def)

theorem sizing_decision_table_witness:
  "sizing_decision False 60 1000 = Some SingleFile
   \<and> sizing_decision True 60 1000 = Some SplitSchemaData
   \<and> sizing_decision False 2000000 1000000 = Some PerTableBatched
   \<and> sizing_decision True 2000000 1000000 = Some PerTableBatched
   \<and> process_database example_world example_options ''sales'' example_state =
       Some (generateSingleFileBackup example_world example_options ''sales'' example_state)"
proof -
  have opts: "ForceSplit example_options = False"
    "DatabaseRowCountTreshold example_options = 10000000"
    by (simp_all add: example_options_def NewOptions_def example_flags_def Let_def)
  have total: "getTotalRowCount (GetTables example_world ''sales'') = 60"
    by (simp add: example_world_def getTotalRowCount_def)
  show ?thesis
    using sizing_decision_table [of False 60 1000]
      sizing_decision_table [of True 60 1000]
      sizing_decision_table [of False 2000000 1000000]
      sizing_decision_table [of True 2000000 1000000]
      sizing_decision_table [of False 60 10000000 example_options example_world "''sales''" example_state]
      opts total
    by (simp add: word_sle_eq word_sless_alt)
qed

section \<open>What the rotation does\<close>

lemma walk_hd: "\<exists>rest. walk p n = p # rest"
  by (cases n) simp_all

lemma filepath_Walk_root: "\<exists>rest. filepath_Walk d root = root # rest"
  using walk_hd by (auto simp: filepath_Walk_def split: option.splits)

lemma ListFiles_root:
  "dir \<noteq> ''daily'' \<Longrightarrow> dir \<noteq> ''weekly'' \<Longrightarrow> dir \<noteq> ''monthly'' \<Longrightarrow> \<exists>rest. ListFiles d dir = dir # rest"
  using filepath_Walk_root [of d dir] by (auto simp: ListFiles_def)

lemma tier_path_not_bare:
  "out @ CHR ''/'' # tier \<noteq> ''daily''" "out @ CHR ''/'' # tier \<noteq> ''weekly''" "out @ CHR ''/'' # tier \<noteq> ''monthly''"
proof -
  have "CHR ''/'' \<in> set (out @ CHR ''/'' # tier)" by simp
  moreover have "CHR ''/'' \<notin> set ''daily''" "CHR ''/'' \<notin> set ''weekly''" "CHR ''/'' \<notin> set ''monthly''"
    by simp_all
  ultimately show "out @ CHR ''/'' # tier \<noteq> ''daily''" "out @ CHR ''/'' # tier \<noteq> ''weekly''" "out @ CHR ''/'' # tier \<noteq> ''monthly''"
    by metis+
qed

lemma ListFiles_tier: "ListFiles d (out @ CHR ''/'' # tier) \<noteq> []"
  using ListFiles_root [OF tier_path_not_bare, of d out tier] by auto

lemma BackupRotation_disk: "BackupRotation w options s = s\<lparr> ticks := ticks s + 1 \<rparr>"
  using ListFiles_tier [of "disk s" "OutputDirectory options" "''monthly''"]
  by (simp add: BackupRotation_def Let_def)

text \<open>
  C9, as the code has it. \<open>ListFiles\<close> of any path other than the three bare strings
  \<open>daily\<close>, \<open>weekly\<close> and \<open>monthly\<close> has the path itself in its result, whether or not the
  directory exists and whatever it holds. The paths \<open>BackupRotation\<close> lists are the output
  directory followed by a slash and the tier, never a bare string, so none of its three
  lists is empty: the branch for an empty monthly tier is never taken and the rotation
  leaves the disk as it is.
\<close>

theorem ListFiles_includes_root:
  "(dir \<noteq> ''daily'' \<and> dir \<noteq> ''weekly'' \<and> dir \<noteq> ''monthly'' \<longrightarrow>
      dir \<in> set (ListFiles d dir) \<and> length (ListFiles d dir) \<noteq> 0)
   \<and> length (ListFiles (disk s) (OutputDirectory options @ ''/monthly'')) \<noteq> 0
   \<and> length (ListFiles (disk s) (OutputDirectory options @ ''/weekly'')) \<noteq> 0
   \<and> length (ListFiles (disk s) (OutputDirectory options @ ''/daily'')) \<noteq> 0
   \<and> disk (BackupRotation w options s) = disk s"
  using ListFiles_root [of dir d] ListFiles_tier [of "disk s" "OutputDirectory options"]
  by (auto simp: BackupRotation_disk)

theorem ListFiles_includes_root_witness:
  "''/backup/monthly'' \<noteq> ''daily'' \<and> ''/backup/monthly'' \<noteq> ''weekly'' \<and> ''/backup/monthly'' \<noteq> ''monthly''
   \<and> os_Stat example_disk ''/backup/monthly'' = Some (Dir [])
   \<and> ''/backup/monthly'' \<in> set (ListFiles example_disk ''/backup/monthly'')
   \<and> length (ListFiles example_disk ''/backup/monthly'') \<noteq> 0"
proof -
  have "os_Stat example_disk ''/backup/monthly'' = Some (Dir [])"
    by code_simp
  then show ?thesis
    using ListFiles_includes_root [of "''/backup/monthly''" example_disk]
    by simp
qed

text \<open>
  A tier directory named by the bare string, relative to the working directory, is dropped
  by the filter: \<open>ListFiles\<close> of the empty directory \<open>monthly\<close> is empty.
\<close>

theorem ListFiles_bare_counterexample:
  "os_Stat working_directory ''monthly'' = Some (Dir [])
   \<and> ''monthly'' \<notin> set (ListFiles working_directory ''monthly'')
   \<and> length (ListFiles working_directory ''monthly'') = 0"
  by code_simp

text \<open>
  C4, at a concrete input. The monthly retention count is 1, the monthly tier has no
  snapshot and the daily tier has the snapshot of the day. \<open>ListFiles\<close> of the monthly tier is
  the tier directory itself, one element, so \<open>BackupRotation\<close> does not call \<open>CopyDir\<close>
  and the monthly tier is still empty afterwards; \<open>CopyDir\<close> itself, had it been called,
  would have made the snapshot of the day in the monthly tier.
\<close>

theorem no_promotion_example:
  "0 <s MontlyRotation example_options
   \<and> tier_snapshots dumped_disk ''/backup/monthly'' = []
   \<and> tier_snapshots dumped_disk ''/backup/daily'' = [''2026-11-02'', ''2026-11-03'']
   \<and> time_Now example_world (ticks dumped_state) = example_day
   \<and> Format_date example_day = ''2026-11-03''
   \<and> ListFiles dumped_disk ''/backup/monthly'' = [''/backup/monthly'']
   \<and> tier_snapshots (disk (BackupRotation example_world example_options dumped_state)) ''/backup/monthly'' = []
   \<and> tier_snapshots (snd (CopyDir ''/backup/daily/2026-11-03'' ''/backup/monthly/2026-11-03'' dumped_disk)) ''/backup/monthly'' = [''2026-11-03'']"
  by code_simp



section \<open>The batching loop\<close>



















section \<open>Failures\<close>





























section \<open>The paths of the dump files\<close>








end
